theory Spec2Isabelle
  imports Complex_Main
begin

section \<open>JavaScript values\<close>

text \<open>
  The handlers of the API receive untyped request data: the parsed query string and the
  parsed body. A value is one of the JavaScript kinds below. A number is a finite value,
  an infinity or NaN; the two zeros are one value here, which no operation of this
  program tells apart (\<open>Boolean\<close>, \<open>===\<close>, \<open><\<close> and \<open>Number.isInteger\<close> agree on them).
  A string is a list of bytes. An object is a plain object as a parser of JSON or of a
  query string builds it: a list of own properties, none of them callable.
\<close>

datatype jsnum = NaN | PosInf | NegInf | Fin rat

datatype jsval =
    JUndefined
  | JNull
  | JBool bool
  | JNum jsnum
  | JStr string
  | JArr "jsval list"
  | JObj "(string \<times> jsval) list"

text \<open>Property access \<open>o.k\<close> on a plain object: \<open>undefined\<close> when the key is absent.\<close>

type_synonym obj = "(string \<times> jsval) list"

definition getProp :: "obj \<Rightarrow> string \<Rightarrow> jsval" where
  "getProp ob k = (case map_of ob k of None \<Rightarrow> JUndefined | Some v \<Rightarrow> v)"

text \<open>\<open>Boolean(value)\<close>: the truthiness of a value.\<close>

fun Boolean :: "jsval \<Rightarrow> bool" where
  "Boolean JUndefined = False"
| "Boolean JNull = False"
| "Boolean (JBool b) = b"
| "Boolean (JNum n) = (n \<noteq> NaN \<and> n \<noteq> Fin 0)"
| "Boolean (JStr s) = (s \<noteq> [])"
| "Boolean (JArr vs) = True"
| "Boolean (JObj kvs) = True"

text \<open>
  \<open>String.prototype.toLowerCase\<close> on the bytes of a string: the letters \<open>A\<close> to \<open>Z\<close>
  become \<open>a\<close> to \<open>z\<close>, every other byte stays. The program compares the result with the
  literals \<open>true\<close> and \<open>false\<close> only.
\<close>

definition lowerChar :: "char \<Rightarrow> char" where
  "lowerChar c =
     (let n = (of_char c :: nat) in if 65 \<le> n \<and> n \<le> 90 then char_of (n + 32) else c)"

definition toLowerCase :: "string \<Rightarrow> string" where
  "toLowerCase s = map lowerChar s"

text \<open>
  \<open>String(value)\<close>, which is \<open>None\<close> when the conversion throws a \<open>TypeError\<close>.
  The decimal rendering of a number is the runtime's; it is the parameter \<open>ns\<close>. An
  array is the comma-joined rendering of its elements, where \<open>null\<close> and \<open>undefined\<close>
  elements render as the empty string, and throws when an element does. A plain object
  renders as \<open>[object Object]\<close> through the \<open>toString\<close> it inherits; when it has an
  own property \<open>toString\<close>, that property is not callable, the inherited \<open>valueOf\<close>
  returns the object itself, and the conversion throws.
\<close>

fun joinComma :: "string list \<Rightarrow> string" where
  "joinComma [] = []"
| "joinComma [s] = s"
| "joinComma (s # t # ss) = s @ '','' @ joinComma (t # ss)"

fun String :: "(jsnum \<Rightarrow> string) \<Rightarrow> jsval \<Rightarrow> string option" where
  "String ns JUndefined = Some ''undefined''"
| "String ns JNull = Some ''null''"
| "String ns (JBool b) = Some (if b then ''true'' else ''false'')"
| "String ns (JNum n) = Some (ns n)"
| "String ns (JStr s) = Some s"
| "String ns (JArr vs) =
     map_option joinComma
       (those (map (\<lambda>v. if v = JUndefined \<or> v = JNull then Some [] else String ns v) vs))"
| "String ns (JObj kvs) =
     (if map_of kvs ''toString'' \<noteq> None then None else Some ''[object Object]'')"

section \<open>Errors and responses\<close>

text \<open>
  \<open>createError(status, message)\<close> builds an error that carries a status. The storage
  layer raises errors of its own, which carry none: a validation error, a cast error on
  a path, a duplicate-key error (code 11000), or something else. A conversion that
  throws, and a call of a method on an absent document, raise a \<open>TypeError\<close>.
\<close>

datatype storeError =
    ValidationError string
  | CastError string
  | DuplicateKey
  | OtherError

datatype error =
    HttpError nat string
  | StoreError storeError
  | TypeError

definition createError :: "nat \<Rightarrow> string \<Rightarrow> error" where
  "createError status message = HttpError status message"

section \<open>Parsing request fields\<close>

text \<open>\<open>parseCountParam(value)\<close>.\<close>

fun parseCountParam :: "jsval \<Rightarrow> bool" where
  "parseCountParam JUndefined = False"
| "parseCountParam (JBool b) = b"
| "parseCountParam (JStr s) = (toLowerCase s = ''true'')"
| "parseCountParam v = False"

text \<open>\<open>parseBoolean(value, defaultValue)\<close>.\<close>

fun parseBoolean :: "jsval \<Rightarrow> bool \<Rightarrow> bool" where
  "parseBoolean JUndefined defaultValue = defaultValue"
| "parseBoolean JNull defaultValue = defaultValue"
| "parseBoolean (JBool b) defaultValue = b"
| "parseBoolean (JStr s) defaultValue =
     (let lower = toLowerCase s in
      if lower = ''true'' then True
      else if lower = ''false'' then False
      else Boolean (JStr s))"
| "parseBoolean v defaultValue = Boolean v"

section \<open>Documents and the store\<close>

text \<open>
  A User and a Task document, with the fields the schemas declare (the creation
  timestamp, which no handler reads or writes, is left out). \<open>user_id\<close> and \<open>task_id\<close>
  are the \<open>_id\<close> of the document in its string form (\<open>_id.toString()\<close>).
  \<open>pendingTasks\<close>, \<open>assignedUser\<close> and \<open>assignedUserName\<close> are string paths: they
  hold the strings they are given, and the store compares them as strings. A collection
  is the list of its documents in insertion order.
\<close>

record user =
  user_id :: string
  user_name :: jsval
  email :: jsval
  pendingTasks :: "string list"

record task =
  task_id :: string
  task_name :: jsval
  description :: jsval
  deadline :: "int option"
  completed :: bool
  assignedUser :: string
  assignedUserName :: jsval

record store =
  users :: "user list"
  tasks :: "task list"

text \<open>
  A list query, as a handler builds it: a count of the documents matching a filter, or
  a \<open>find\<close> on a filter with the chained projection, sort, skip and limit (each
  present only when the handler chained it).
\<close>

datatype collection = Users | Tasks

record findQuery =
  fq_filter :: jsval
  fq_select :: "jsval option"
  fq_sort :: "jsval option"
  fq_skip :: "jsnum option"
  fq_limit :: "jsnum option"

datatype storeCall =
    CountDocuments collection jsval
  | FindExec collection findQuery

text \<open>The outcome of \<open>new Date(v)\<close>: it throws, or is an invalid date, or is an instant.\<close>

datatype dateResult = DateThrows | InvalidDate | ValidDate int

text \<open>
  What the program takes from its runtime and from the storage layer, none of which is
  part of the repository's sources:
  \<^item> \<open>isValid\<close>, the id-format validator \<open>mongoose.Types.ObjectId.isValid\<close>;
  \<^item> \<open>castId\<close>, the cast of a string that a query gives for an \<open>_id\<close>: the string form
    of the ObjectId it denotes (two spellings of one id, as in upper and lower case,
    have the same), or \<open>None\<close> when the cast fails and the query throws a cast error;
  \<^item> \<open>numToString\<close> and \<open>toNumber\<close>, \<open>String\<close> on a number and \<open>Number\<close> on a
    value (\<open>None\<close> when the conversion throws);
  \<^item> \<open>JSON_parse\<close>, \<open>JSON.parse\<close> (\<open>None\<close> when it throws);
  \<^item> \<open>newDate\<close>, the outcome of \<open>new Date(v)\<close>;
  \<^item> \<open>schemaString\<close>, the value that a trimmed string path of a schema holds once a
    value is assigned to it (lower-cased too when the flag is set, as the email is);
  \<^item> \<open>validateTask\<close> and \<open>validateUser\<close>, the validation that \<open>save\<close> runs
    (\<open>None\<close> when the document is accepted; for a User it may depend on the stored
    users, since the email is unique);
  \<^item> \<open>refuses\<close>, the check of the arguments of a list query by the query builder
    of the storage layer: the error with which it refuses them (a filter, a projection
    or a sort of a kind it does not take), in which case the store is not asked, or
    \<open>None\<close>.
\<close>

record env =
  isValid :: "string \<Rightarrow> bool"
  castId :: "string \<Rightarrow> string option"
  numToString :: "jsnum \<Rightarrow> string"
  toNumber :: "jsval \<Rightarrow> jsnum option"
  JSON_parse :: "jsval \<Rightarrow> jsval option"
  newDate :: "jsval \<Rightarrow> dateResult"
  schemaString :: "bool \<Rightarrow> jsval \<Rightarrow> jsval"
  validateTask :: "task \<Rightarrow> storeError option"
  validateUser :: "user list \<Rightarrow> user \<Rightarrow> storeError option"
  refuses :: "storeCall \<Rightarrow> storeError option"

section \<open>The query-options parser\<close>

definition parseJSONParam :: "env \<Rightarrow> jsval \<Rightarrow> string \<Rightarrow> error + jsval" where
  \<open>parseJSONParam env value paramName =
     (if value = JUndefined then Inr JUndefined
      else case JSON_parse env value of
             None \<Rightarrow> Inl (createError 400 (''Invalid JSON in "'' @ paramName @ ''" parameter''))
           | Some v \<Rightarrow> Inr v)\<close>

fun isInteger :: "jsnum \<Rightarrow> bool" where
  "isInteger (Fin r) = (of_int \<lfloor>r\<rfloor> = r)"
| "isInteger n = False"

fun isNegative :: "jsnum \<Rightarrow> bool" where
  "isNegative (Fin r) = (r < 0)"
| "isNegative NegInf = True"
| "isNegative n = False"

text \<open>
  \<open>parseNumberParam(value, paramName)\<close>. \<open>Number(value)\<close> is not guarded: when it
  throws, the \<open>TypeError\<close> leaves the function.
\<close>

definition parseNumberParam :: "env \<Rightarrow> jsval \<Rightarrow> string \<Rightarrow> error + jsnum option" where
  \<open>parseNumberParam env value paramName =
     (if value = JUndefined then Inr None
      else case toNumber env value of
        None \<Rightarrow> Inl TypeError
      | Some parsed \<Rightarrow>
          if \<not> isInteger parsed \<or> isNegative parsed
          then Inl (createError 400
                     (''Parameter "'' @ paramName @ ''" must be a non-negative integer''))
          else Inr (Some parsed))\<close>

record queryOptions =
  qo_filter :: jsval
  qo_sort :: jsval
  qo_select :: jsval
  qo_skip :: "jsnum option"
  qo_limit :: "jsnum option"
  qo_count :: bool

text \<open>
  \<open>buildQueryOptions(req, options)\<close>: \<open>query\<close> is \<open>req.query\<close> and \<open>defaultLimit\<close> is
  \<open>options.defaultLimit\<close> (\<open>None\<close> when the caller gives none). The parameters are
  parsed in the order of the source, so the first failure is the one raised.
  \<open>selectValueOf\<close> is the source's \<open>selectValue\<close>: the \<open>select\<close> parameter when
  it is given, the \<open>filter\<close> parameter otherwise.
\<close>

definition selectValueOf :: "obj \<Rightarrow> jsval" where
  "selectValueOf query =
     (if getProp query ''select'' \<noteq> JUndefined then getProp query ''select''
      else getProp query ''filter'')"

definition buildQueryOptions :: "env \<Rightarrow> obj \<Rightarrow> jsnum option \<Rightarrow> error + queryOptions" where
  \<open>buildQueryOptions env query defaultLimit =
     (case parseJSONParam env (getProp query ''where'') ''where'' of
        Inl e \<Rightarrow> Inl e
      | Inr w \<Rightarrow>
     (case parseJSONParam env (getProp query ''sort'') ''sort'' of
        Inl e \<Rightarrow> Inl e
      | Inr sort_v \<Rightarrow>
     (let filter_v = (if Boolean w then w else JObj []);
          selectParamName =
            (if getProp query ''select'' \<noteq> JUndefined then ''select''
             else if getProp query ''filter'' \<noteq> JUndefined then ''filter'' else ''select'');
          selectValue = selectValueOf query
      in
     (case parseJSONParam env selectValue selectParamName of
        Inl e \<Rightarrow> Inl e
      | Inr select \<Rightarrow>
     (case parseNumberParam env (getProp query ''skip'') ''skip'' of
        Inl e \<Rightarrow> Inl e
      | Inr skip \<Rightarrow>
     (case parseNumberParam env (getProp query ''limit'') ''limit'' of
        Inl e \<Rightarrow> Inl e
      | Inr limit \<Rightarrow>
     (let count = parseCountParam (getProp query ''count'') in
      if count \<and> Boolean select
      then Inl (createError 400 ''Cannot use "select" parameter when "count" is true'')
      else Inr \<lparr> qo_filter = filter_v, qo_sort = sort_v, qo_select = select, qo_skip = skip,
                 qo_limit =
                   (if \<not> count
                    then (if limit = None \<and> defaultLimit \<noteq> None then defaultLimit else limit)
                    else None),
                 qo_count = count \<rparr>)))))))\<close>

section \<open>Responses\<close>

text \<open>
  The body that \<open>sendResponse\<close> writes is a message and a data value: the empty object,
  the empty array, a document read back from the store (\<open>None\<close> when \<open>findById\<close>
  finds nothing), or what a list query of the store returned, a count or documents. A
  delete answers 204 with no body.
\<close>

datatype rdata =
    EmptyObject
  | EmptyArray
  | UserDoc "user option"
  | TaskDoc "task option"
  | Count nat
  | Documents "jsval list"

datatype response =
    Json nat string rdata
  | NoContent

fun status :: "response \<Rightarrow> nat" where
  "status (Json st msg d) = st"
| "status NoContent = 204"

definition sendResponse :: "nat \<Rightarrow> string \<Rightarrow> rdata \<Rightarrow> response" where
  "sendResponse st msg d = Json st msg d"

fun handleError :: "error \<Rightarrow> response" where
  \<open>handleError (HttpError st msg) =
     (if st \<noteq> 0 then sendResponse st msg EmptyObject
      else sendResponse 500 ''Internal server error'' EmptyObject)\<close>
| \<open>handleError (StoreError (ValidationError msg)) = sendResponse 400 msg EmptyObject\<close>
| \<open>handleError (StoreError (CastError path)) =
     sendResponse 400 (''Invalid value for field "'' @ path @ ''"'') EmptyObject\<close>
| \<open>handleError e = sendResponse 500 ''Internal server error'' EmptyObject\<close>

section \<open>The list handlers\<close>

text \<open>
  A list handler answers by itself, or puts its query to the store and answers with
  the outcome. A query that the query builder refuses is answered by the handler's
  \<open>catch\<close> with \<open>handleError\<close> of the error, and the store is not asked. A query
  that reaches the store may still fail there; the handler then answers with
  \<open>handleError\<close> of that error, and otherwise with 200 and the result.
\<close>

datatype listOutcome =
    Answer response
  | AnswerFromStore storeCall

definition ask :: "env \<Rightarrow> storeCall \<Rightarrow> listOutcome" where
  "ask env c =
     (case refuses env c of
        Some e \<Rightarrow> Answer (handleError (StoreError e))
      | None \<Rightarrow> AnswerFromStore c)"

text \<open>The response of a list handler, given how the store answers a query.\<close>

fun respond :: "(storeCall \<Rightarrow> error + rdata) \<Rightarrow> listOutcome \<Rightarrow> response" where
  "respond layer (Answer r) = r"
| "respond layer (AnswerFromStore c) =
     (case layer c of
        Inl e \<Rightarrow> handleError e
      | Inr d \<Rightarrow> sendResponse 200 ''OK'' d)"

definition chainQuery :: "queryOptions \<Rightarrow> findQuery" where
  "chainQuery qo =
     \<lparr> fq_filter = qo_filter qo,
       fq_select = (if Boolean (qo_select qo) then Some (qo_select qo) else None),
       fq_sort = (if Boolean (qo_sort qo) then Some (qo_sort qo) else None),
       fq_skip = qo_skip qo,
       fq_limit = qo_limit qo \<rparr>"

text \<open>\<open>GET /users\<close>.\<close>

definition users_get :: "env \<Rightarrow> obj \<Rightarrow> listOutcome" where
  "users_get env query =
     (case buildQueryOptions env query None of
        Inl error \<Rightarrow> Answer (handleError error)
      | Inr queryOptions \<Rightarrow>
          if qo_count queryOptions
          then ask env (CountDocuments Users (qo_filter queryOptions))
          else ask env (FindExec Users (chainQuery queryOptions)))"

text \<open>\<open>GET /tasks\<close>, with the default limit of 100.\<close>

definition tasks_get :: "env \<Rightarrow> obj \<Rightarrow> listOutcome" where
  "tasks_get env query =
     (case buildQueryOptions env query (Some (Fin 100)) of
        Inl error \<Rightarrow> Answer (handleError error)
      | Inr queryOptions \<Rightarrow>
          if qo_count queryOptions
          then ask env (CountDocuments Tasks (qo_filter queryOptions))
          else if qo_limit queryOptions = Some (Fin 0)
          then Answer (sendResponse 200 ''OK'' EmptyArray)
          else ask env (FindExec Tasks (chainQuery queryOptions)))"

section \<open>Id normalization\<close>

text \<open>
  \<open>Array.from(new Set(cleaned))\<close>: the set is filled in the order of the list, and a
  value already in it is not added again.
\<close>

definition setAdd :: "'a list \<Rightarrow> 'a \<Rightarrow> 'a list" where
  "setAdd acc x = (if x \<in> set acc then acc else acc @ [x])"

definition arrayFromSet :: "'a list \<Rightarrow> 'a list" where
  "arrayFromSet xs = foldl setAdd [] xs"

text \<open>The \<open>forEach\<close> that throws at the first id the validator refuses.\<close>

fun checkIds :: "env \<Rightarrow> string \<Rightarrow> string list \<Rightarrow> error option" where
  \<open>checkIds env fieldName [] = None\<close>
| \<open>checkIds env fieldName (i # ids) =
     (if \<not> isValid env i
      then Some (createError 400 (''Invalid task id in "'' @ fieldName @ ''" array''))
      else checkIds env fieldName ids)\<close>

definition keepValue :: "jsval \<Rightarrow> bool" where
  "keepValue v = (v \<noteq> JUndefined \<and> v \<noteq> JNull \<and> v \<noteq> JStr [])"

text \<open>
  \<open>normalizeIdArray(values, fieldName)\<close>. \<open>.map(String)\<close> converts every kept value
  before any id is validated, so a conversion that throws ends the call first.
\<close>

definition normalizeIdArray :: "env \<Rightarrow> jsval \<Rightarrow> string \<Rightarrow> error + string list" where
  "normalizeIdArray env values fieldName =
     (if values = JUndefined \<or> values = JNull then Inr []
      else
        let vs = (case values of JArr xs \<Rightarrow> xs | v \<Rightarrow> [v]) in
        case those (map (String (numToString env)) (filter keepValue vs)) of
          None \<Rightarrow> Inl TypeError
        | Some cleaned \<Rightarrow>
            let unique = arrayFromSet cleaned
            in case checkIds env fieldName unique of
                 Some e \<Rightarrow> Inl e
               | None \<Rightarrow> Inr unique)"

section \<open>The operations of the store\<close>

text \<open>
  What a collection does once an id is an ObjectId, with the string form of the id of
  a document read by \<open>key\<close>: \<open>docWithId\<close> gives the first document with the id,
  \<open>updateFirst\<close> changes the first one, \<open>updateMany\<close> changes every document
  matching the filter, \<open>deleteFirst\<close> removes the first one, and \<open>docsWithIds\<close>
  gives the documents whose id is among the given ones, in the order of the collection.
\<close>

definition docWithId :: "('d \<Rightarrow> string) \<Rightarrow> 'd list \<Rightarrow> string \<Rightarrow> 'd option" where
  "docWithId key ds c = find (\<lambda>d. key d = c) ds"

fun updateFirst :: "('d \<Rightarrow> string) \<Rightarrow> string \<Rightarrow> ('d \<Rightarrow> 'd) \<Rightarrow> 'd list \<Rightarrow> 'd list" where
  "updateFirst key c f [] = []"
| "updateFirst key c f (d # ds) = (if key d = c then f d # ds else d # updateFirst key c f ds)"

definition updateMany :: "('d \<Rightarrow> bool) \<Rightarrow> ('d \<Rightarrow> 'd) \<Rightarrow> 'd list \<Rightarrow> 'd list" where
  "updateMany matches f ds = map (\<lambda>d. if matches d then f d else d) ds"

fun deleteFirst :: "('d \<Rightarrow> string) \<Rightarrow> string \<Rightarrow> 'd list \<Rightarrow> 'd list" where
  "deleteFirst key c [] = []"
| "deleteFirst key c (d # ds) = (if key d = c then ds else d # deleteFirst key c ds)"

definition docsWithIds :: "('d \<Rightarrow> string) \<Rightarrow> string list \<Rightarrow> 'd list \<Rightarrow> 'd list" where
  "docsWithIds key cs ds = filter (\<lambda>d. key d \<in> set cs) ds"

text \<open>
  The calls of the handlers that name a document by a string: \<open>findById(id)\<close>,
  \<open>updateOne({_id: id}, ...)\<close>, \<open>deleteOne({_id: id})\<close> and
  \<open>find({_id: {$in: ids}})\<close>. The storage layer casts the string to an ObjectId
  first, so that every spelling of an id names the same document, and throws a cast
  error on the path \<open>_id\<close> when the cast fails.
\<close>

definition castError :: error where
  "castError = StoreError (CastError ''_id'')"

definition castIds :: "env \<Rightarrow> string list \<Rightarrow> error + string list" where
  "castIds env ids =
     (case those (map (castId env) ids) of None \<Rightarrow> Inl castError | Some cs \<Rightarrow> Inr cs)"

definition findById :: "env \<Rightarrow> ('d \<Rightarrow> string) \<Rightarrow> 'd list \<Rightarrow> string \<Rightarrow> error + 'd option" where
  "findById env key ds i =
     (case castId env i of None \<Rightarrow> Inl castError | Some c \<Rightarrow> Inr (docWithId key ds c))"

definition updateOne ::
  "env \<Rightarrow> ('d \<Rightarrow> string) \<Rightarrow> string \<Rightarrow> ('d \<Rightarrow> 'd) \<Rightarrow> 'd list \<Rightarrow> error + 'd list" where
  "updateOne env key i f ds =
     (case castId env i of None \<Rightarrow> Inl castError | Some c \<Rightarrow> Inr (updateFirst key c f ds))"

definition deleteOne :: "env \<Rightarrow> ('d \<Rightarrow> string) \<Rightarrow> string \<Rightarrow> 'd list \<Rightarrow> error + 'd list" where
  "deleteOne env key i ds =
     (case castId env i of None \<Rightarrow> Inl castError | Some c \<Rightarrow> Inr (deleteFirst key c ds))"

definition findIn :: "env \<Rightarrow> ('d \<Rightarrow> string) \<Rightarrow> string list \<Rightarrow> 'd list \<Rightarrow> error + 'd list" where
  "findIn env key ids ds =
     (case castIds env ids of Inl e \<Rightarrow> Inl e | Inr cs \<Rightarrow> Inr (docsWithIds key cs ds))"

text \<open>
  \<open>save\<close> validates the document and then writes it: a new document is appended to its
  collection, a document that was read from the store replaces the stored one, which it
  names by its \<open>_id\<close>.
\<close>

definition insertTask :: "env \<Rightarrow> task \<Rightarrow> store \<Rightarrow> error + store" where
  "insertTask env t s =
     (case validateTask env t of
        Some e \<Rightarrow> Inl (StoreError e)
      | None \<Rightarrow> Inr (s\<lparr>tasks := tasks s @ [t]\<rparr>))"

definition saveTask :: "env \<Rightarrow> task \<Rightarrow> store \<Rightarrow> error + store" where
  "saveTask env t s =
     (case validateTask env t of
        Some e \<Rightarrow> Inl (StoreError e)
      | None \<Rightarrow> Inr (s\<lparr>tasks := updateFirst task_id (task_id t) (\<lambda>d. t) (tasks s)\<rparr>))"

definition insertUser :: "env \<Rightarrow> user \<Rightarrow> store \<Rightarrow> error + store" where
  "insertUser env u s =
     (case validateUser env (users s) u of
        Some e \<Rightarrow> Inl (StoreError e)
      | None \<Rightarrow> Inr (s\<lparr>users := users s @ [u]\<rparr>))"

definition saveUser :: "env \<Rightarrow> user \<Rightarrow> store \<Rightarrow> error + store" where
  "saveUser env u s =
     (case validateUser env (users s) u of
        Some e \<Rightarrow> Inl (StoreError e)
      | None \<Rightarrow> Inr (s\<lparr>users := updateFirst user_id (user_id u) (\<lambda>d. u) (users s)\<rparr>))"

section \<open>The assignment synchronizer\<close>

definition ensureTasksExist :: "env \<Rightarrow> string list \<Rightarrow> store \<Rightarrow> error + task list" where
  "ensureTasksExist env taskIds s =
     (if taskIds = [] then Inr []
      else case findIn env task_id taskIds (tasks s) of
        Inl e \<Rightarrow> Inl e
      | Inr found \<Rightarrow>
          if length found \<noteq> length taskIds
          then Inl (createError 400 ''One or more tasks in pendingTasks do not exist'')
          else Inr found)"

text \<open>
  \<open>removeTaskFromUser\<close> and \<open>addTaskToUser\<close>: the user is named by \<open>_id\<close>, which is
  cast; \<open>$pull\<close> and \<open>$addToSet\<close> work on the strings of \<open>pendingTasks\<close> with the
  task id as it is given.
\<close>

definition removeTaskFromUser :: "env \<Rightarrow> string \<Rightarrow> string \<Rightarrow> store \<Rightarrow> error + store" where
  "removeTaskFromUser env taskId userId s =
     (if userId = [] then Inr s
      else case updateOne env user_id userId
                  (\<lambda>u. u\<lparr>pendingTasks := removeAll taskId (pendingTasks u)\<rparr>) (users s) of
        Inl e \<Rightarrow> Inl e
      | Inr us \<Rightarrow> Inr (s\<lparr>users := us\<rparr>))"

definition addTaskToUser :: "env \<Rightarrow> string \<Rightarrow> string \<Rightarrow> store \<Rightarrow> error + store" where
  "addTaskToUser env taskId userId s =
     (if userId = [] then Inr s
      else case updateOne env user_id userId
                  (\<lambda>u. u\<lparr>pendingTasks := setAdd (pendingTasks u) taskId\<rparr>) (users s) of
        Inl e \<Rightarrow> Inl e
      | Inr us \<Rightarrow> Inr (s\<lparr>users := us\<rparr>))"

text \<open>
  The \<open>$set\<close> of the two unassigning writes. The literal \<open>unassigned\<close> is its own
  trimmed form.
\<close>

definition unassigned :: "task \<Rightarrow> task" where
  "unassigned t = t\<lparr>assignedUser := [], assignedUserName := JStr ''unassigned''\<rparr>"

text \<open>
  The second pass of \<open>syncUserPendingTasks\<close>: the loop over the tasks that \<open>find\<close>
  returned. A call that fails ends the loop with the error, in the store as it is then.
\<close>

fun syncLoop :: "env \<Rightarrow> string \<Rightarrow> jsval \<Rightarrow> task list \<Rightarrow> store \<Rightarrow> error option \<times> store" where
  "syncLoop env userId userName [] s = (None, s)"
| "syncLoop env userId userName (t # ts) s =
     (let previousUserId = assignedUser t in
      case (if previousUserId \<noteq> [] \<and> previousUserId \<noteq> userId
            then removeTaskFromUser env (task_id t) previousUserId s else Inr s) of
        Inl e \<Rightarrow> (Some e, s)
      | Inr s1 \<Rightarrow>
          (let t' = t\<lparr>assignedUser := userId,
                      assignedUserName := schemaString env False userName,
                      completed := False\<rparr>
           in case saveTask env t' s1 of
                Inl e \<Rightarrow> (Some e, s1)
              | Inr s2 \<Rightarrow> syncLoop env userId userName ts s2))"

text \<open>
  \<open>syncUserPendingTasks(userDoc, previousPending)\<close>. The removed ids are found by
  comparing strings; the two queries then name tasks by \<open>_id\<close>, which is cast, and the
  first compares \<open>assignedUser\<close> with the user's id as a string.
\<close>

definition syncUserPendingTasks ::
  "env \<Rightarrow> user \<Rightarrow> string list \<Rightarrow> store \<Rightarrow> error option \<times> store" where
  "syncUserPendingTasks env userDoc previousPending s =
     (let userId = user_id userDoc;
          previousIds = previousPending;
          currentIds = pendingTasks userDoc;
          removed = filter (\<lambda>i. i \<notin> set currentIds) previousIds;
          toEnsure = currentIds
      in case (if removed \<noteq> [] then
                 (case castIds env removed of
                    Inl e \<Rightarrow> Inl e
                  | Inr cs \<Rightarrow>
                      Inr (s\<lparr>tasks := updateMany
                              (\<lambda>t. task_id t \<in> set cs \<and> assignedUser t = userId)
                              unassigned (tasks s)\<rparr>))
               else Inr s) of
           Inl e \<Rightarrow> (Some e, s)
         | Inr s1 \<Rightarrow>
             if toEnsure \<noteq> [] then
               (case findIn env task_id toEnsure (tasks s1) of
                  Inl e \<Rightarrow> (Some e, s1)
                | Inr found \<Rightarrow> syncLoop env userId (user_name userDoc) found s1)
             else (None, s1))"

text \<open>
  \<open>unassignTask\<close> and \<open>assignTask\<close> change the document they are given (not yet the
  stored one) and detach the task from its owner in the store, under the id that the
  document has. Both return at once when a document is absent.
\<close>

fun unassignTask :: "env \<Rightarrow> task option \<Rightarrow> store \<Rightarrow> error + task option \<times> store" where
  "unassignTask env None s = Inr (None, s)"
| "unassignTask env (Some taskDoc) s =
     (let currentUserId = assignedUser taskDoc in
      case (if currentUserId \<noteq> [] then removeTaskFromUser env (task_id taskDoc) currentUserId s
            else Inr s) of
        Inl e \<Rightarrow> Inl e
      | Inr s1 \<Rightarrow> Inr (Some (unassigned taskDoc), s1))"

fun assignTask ::
  "env \<Rightarrow> task option \<Rightarrow> user option \<Rightarrow> store \<Rightarrow> error + task option \<times> store" where
  "assignTask env (Some taskDoc) (Some userDoc) s =
     (let userId = user_id userDoc in
      case (if assignedUser taskDoc \<noteq> [] \<and> assignedUser taskDoc \<noteq> userId
            then removeTaskFromUser env (task_id taskDoc) (assignedUser taskDoc) s
            else Inr s) of
        Inl e \<Rightarrow> Inl e
      | Inr s1 \<Rightarrow>
          Inr (Some (taskDoc\<lparr>assignedUser := userId,
                             assignedUserName := schemaString env False (user_name userDoc)\<rparr>),
               s1))"
| "assignTask env taskDoc userDoc s = Inr (taskDoc, s)"

section \<open>Dates\<close>

definition isNaN :: "jsnum \<Rightarrow> bool" where
  "isNaN n = (n = NaN)"

definition isFinite :: "jsnum \<Rightarrow> bool" where
  "isFinite n = (case n of Fin r \<Rightarrow> True | _ \<Rightarrow> False)"

text \<open>
  \<open>parseDateValue(value, fieldName)\<close>. Neither \<open>Number(value)\<close> nor
  \<open>new Date(value)\<close> is guarded: when one throws, the \<open>TypeError\<close> leaves the
  function.
\<close>

definition parseDateValue :: "env \<Rightarrow> jsval \<Rightarrow> string \<Rightarrow> error + int option" where
  \<open>parseDateValue env value fieldName =
     (if value = JUndefined \<or> value = JNull \<or> value = JStr [] then Inr None
      else
        let date =
          (case value of
             JNum n \<Rightarrow> Some (newDate env value)
           | JStr str \<Rightarrow>
               (case toNumber env value of
                  None \<Rightarrow> None
                | Some numValue \<Rightarrow>
                    if \<not> isNaN numValue \<and> isFinite numValue
                    then Some (newDate env (JNum numValue))
                    else Some (newDate env value))
           | _ \<Rightarrow> Some (newDate env value))
        in case date of
             None \<Rightarrow> Inl TypeError
           | Some DateThrows \<Rightarrow> Inl TypeError
           | Some InvalidDate \<Rightarrow>
               Inl (createError 400 (''Invalid date supplied for "'' @ fieldName @ ''"''))
           | Some (ValidDate d) \<Rightarrow> Inr (Some d))\<close>

section \<open>The mutation handlers\<close>

text \<open>
  A handler takes the store and returns its response and the store it leaves. Every
  \<open>throw\<close> inside the \<open>try\<close> block ends the handler in its \<open>catch\<close>, whatever
  was written before stays written. The User handlers answer a duplicate-key error
  themselves and pass every other error to \<open>handleError\<close>. A value assigned to the
  name, the description, the email or the owner's name of a document goes through the
  setters of its path (\<open>schemaString\<close>).
\<close>

definition userError :: "error \<Rightarrow> response" where
  "userError e =
     (if e = StoreError DuplicateKey then sendResponse 400 ''Email already exists'' EmptyObject
      else handleError e)"

text \<open>\<open>req.body.pendingTasks || []\<close>.\<close>

definition pendingTasksOf :: "obj \<Rightarrow> jsval" where
  "pendingTasksOf body =
     (if Boolean (getProp body ''pendingTasks'') then getProp body ''pendingTasks'' else JArr [])"

text \<open>
  \<open>POST /users\<close>. \<open>newId\<close> is the string form of the \<open>_id\<close> that the new document
  gets. The document is read back by that \<open>_id\<close>.
\<close>

definition users_post :: "env \<Rightarrow> string \<Rightarrow> obj \<Rightarrow> store \<Rightarrow> response \<times> store" where
  "users_post env newId body s =
     (case normalizeIdArray env (pendingTasksOf body) ''pendingTasks'' of
        Inl e \<Rightarrow> (userError e, s)
      | Inr pendingTaskIds \<Rightarrow>
     (case ensureTasksExist env pendingTaskIds s of
        Inl e \<Rightarrow> (userError e, s)
      | Inr existing \<Rightarrow>
     (let userDoc = \<lparr> user_id = newId,
                      user_name = schemaString env False (getProp body ''name''),
                      email = schemaString env True (getProp body ''email''),
                      pendingTasks = pendingTaskIds \<rparr>
      in
     (case insertUser env userDoc s of
        Inl e \<Rightarrow> (userError e, s)
      | Inr s1 \<Rightarrow>
     (case syncUserPendingTasks env userDoc [] s1 of
        (Some e, s2) \<Rightarrow> (userError e, s2)
      | (None, s2) \<Rightarrow>
          (sendResponse 201 ''User created'' (UserDoc (docWithId user_id (users s2) newId)),
           s2))))))"

text \<open>\<open>PUT /users/:id\<close>.\<close>

definition users_put :: "env \<Rightarrow> string \<Rightarrow> obj \<Rightarrow> store \<Rightarrow> response \<times> store" where
  "users_put env userId body s =
     (if \<not> isValid env userId then (userError (createError 400 ''Invalid user id''), s)
      else case findById env user_id (users s) userId of
        Inl e \<Rightarrow> (userError e, s)
      | Inr None \<Rightarrow> (userError (createError 404 ''User not found''), s)
      | Inr (Some found) \<Rightarrow>
     (let previousPending = pendingTasks found in
     (case normalizeIdArray env (pendingTasksOf body) ''pendingTasks'' of
        Inl e \<Rightarrow> (userError e, s)
      | Inr pendingTaskIds \<Rightarrow>
     (case ensureTasksExist env pendingTaskIds s of
        Inl e \<Rightarrow> (userError e, s)
      | Inr existing \<Rightarrow>
     (let userDoc = found\<lparr> user_name := schemaString env False (getProp body ''name''),
                           email := schemaString env True (getProp body ''email''),
                           pendingTasks := pendingTaskIds \<rparr>
      in
     (case saveUser env userDoc s of
        Inl e \<Rightarrow> (userError e, s)
      | Inr s1 \<Rightarrow>
     (case syncUserPendingTasks env userDoc previousPending s1 of
        (Some e, s2) \<Rightarrow> (userError e, s2)
      | (None, s2) \<Rightarrow>
     (case findById env user_id (users s2) userId of
        Inl e \<Rightarrow> (userError e, s2)
      | Inr updatedUser \<Rightarrow>
          (sendResponse 200 ''User updated'' (UserDoc updatedUser), s2)))))))))"

text \<open>
  \<open>DELETE /users/:id\<close>. The tasks of the user are those whose \<open>assignedUser\<close> is
  the string of the request.
\<close>

definition users_delete :: "env \<Rightarrow> string \<Rightarrow> store \<Rightarrow> response \<times> store" where
  "users_delete env userId s =
     (if \<not> isValid env userId then (handleError (createError 400 ''Invalid user id''), s)
      else case findById env user_id (users s) userId of
        Inl e \<Rightarrow> (handleError e, s)
      | Inr None \<Rightarrow> (handleError (createError 404 ''User not found''), s)
      | Inr (Some found) \<Rightarrow>
          (let s1 = s\<lparr>tasks := updateMany (\<lambda>t. assignedUser t = userId) unassigned (tasks s)\<rparr>
           in case deleteOne env user_id userId (users s1) of
                Inl e \<Rightarrow> (handleError e, s1)
              | Inr us \<Rightarrow> (NoContent, s1\<lparr>users := us\<rparr>)))"

text \<open>
  The block of the two Task write handlers that resolves \<open>assignedUserId\<close>: no user
  when it is empty, an error when it is not a valid id or names no stored user.
\<close>

definition findAssignedUser :: "env \<Rightarrow> string \<Rightarrow> store \<Rightarrow> error + user option" where
  "findAssignedUser env assignedUserId s =
     (if assignedUserId \<noteq> [] then
        (if \<not> isValid env assignedUserId
         then Inl (createError 400 ''Invalid user id in assignedUser'')
         else case findById env user_id (users s) assignedUserId of
                Inl e \<Rightarrow> Inl e
              | Inr None \<Rightarrow> Inl (createError 400 ''Assigned user does not exist'')
              | Inr (Some u) \<Rightarrow> Inr (Some u))
      else Inr None)"

text \<open>
  \<open>req.body.assignedUser ? String(req.body.assignedUser) : ''\<close>, which is \<open>None\<close>
  when the conversion throws.
\<close>

definition assignedUserIdOf :: "env \<Rightarrow> obj \<Rightarrow> string option" where
  "assignedUserIdOf env body =
     (if Boolean (getProp body ''assignedUser'')
      then String (numToString env) (getProp body ''assignedUser'') else Some [])"

definition descriptionOf :: "obj \<Rightarrow> jsval" where
  "descriptionOf body =
     (if getProp body ''description'' = JUndefined then JStr []
      else getProp body ''description'')"

text \<open>
  \<open>POST /tasks\<close>. \<open>newId\<close> is the string form of the \<open>_id\<close> that the new document
  gets; the task is added to its owner's list under it. Were \<open>assignTask\<close> to leave no
  document, the \<open>save\<close> on it would throw.
\<close>

definition tasks_post :: "env \<Rightarrow> string \<Rightarrow> obj \<Rightarrow> store \<Rightarrow> response \<times> store" where
  "tasks_post env newId body s =
     (case assignedUserIdOf env body of
        None \<Rightarrow> (handleError TypeError, s)
      | Some assignedUserId \<Rightarrow>
     (case findAssignedUser env assignedUserId s of
        Inl e \<Rightarrow> (handleError e, s)
      | Inr userDoc \<Rightarrow>
     (let completedValue = parseBoolean (getProp body ''completed'') False in
     (case parseDateValue env (getProp body ''deadline'') ''deadline'' of
        Inl e \<Rightarrow> (handleError e, s)
      | Inr deadlineValue \<Rightarrow>
     (let created = \<lparr> task_id = newId,
                      task_name = schemaString env False (getProp body ''name''),
                      description = schemaString env False (descriptionOf body),
                      deadline = deadlineValue,
                      completed = completedValue, assignedUser = [],
                      assignedUserName = JStr ''unassigned'' \<rparr>
      in
     (case (if userDoc \<noteq> None then assignTask env (Some created) userDoc s
            else Inr (Some created, s)) of
        Inl e \<Rightarrow> (handleError e, s)
      | Inr (None, s1) \<Rightarrow> (handleError TypeError, s1)
      | Inr (Some taskDoc, s1) \<Rightarrow>
     (case insertTask env taskDoc s1 of
        Inl e \<Rightarrow> (handleError e, s1)
      | Inr s2 \<Rightarrow>
     (case (if assignedUser taskDoc \<noteq> [] \<and> \<not> completed taskDoc
            then addTaskToUser env (task_id taskDoc) (assignedUser taskDoc) s2
            else Inr s2) of
        Inl e \<Rightarrow> (handleError e, s2)
      | Inr s3 \<Rightarrow>
          (sendResponse 201 ''Task created'' (TaskDoc (docWithId task_id (tasks s3) newId)),
           s3)))))))))"

text \<open>
  \<open>PUT /tasks/:id\<close>. After the \<open>save\<close> the handler detaches and attaches the task
  under \<open>taskId\<close>, the string of the request, where \<open>assignTask\<close>, \<open>unassignTask\<close>
  and \<open>POST /tasks\<close> use the string form of the document's \<open>_id\<close>.
\<close>

definition tasks_put :: "env \<Rightarrow> string \<Rightarrow> obj \<Rightarrow> store \<Rightarrow> response \<times> store" where
  "tasks_put env taskId body s =
     (if \<not> isValid env taskId then (handleError (createError 400 ''Invalid task id''), s)
      else case findById env task_id (tasks s) taskId of
        Inl e \<Rightarrow> (handleError e, s)
      | Inr None \<Rightarrow> (handleError (createError 404 ''Task not found''), s)
      | Inr (Some found) \<Rightarrow>
     (let previousUserId = assignedUser found;
          completedValue = parseBoolean (getProp body ''completed'') False
      in
     (case assignedUserIdOf env body of
        None \<Rightarrow> (handleError TypeError, s)
      | Some assignedUserId \<Rightarrow>
     (case parseDateValue env (getProp body ''deadline'') ''deadline'' of
        Inl e \<Rightarrow> (handleError e, s)
      | Inr deadlineValue \<Rightarrow>
     (case findAssignedUser env assignedUserId s of
        Inl e \<Rightarrow> (handleError e, s)
      | Inr userDoc \<Rightarrow>
     (let edited = found\<lparr> task_name := schemaString env False (getProp body ''name''),
                          description := schemaString env False (descriptionOf body),
                          deadline := deadlineValue,
                          completed := completedValue \<rparr>
      in
     (case (if userDoc \<noteq> None then assignTask env (Some edited) userDoc s
            else unassignTask env (Some edited) s) of
        Inl e \<Rightarrow> (handleError e, s)
      | Inr (None, s1) \<Rightarrow> (handleError TypeError, s1)
      | Inr (Some taskDoc, s1) \<Rightarrow>
     (case saveTask env taskDoc s1 of
        Inl e \<Rightarrow> (handleError e, s1)
      | Inr s2 \<Rightarrow>
     (case (if previousUserId \<noteq> [] \<and>
               previousUserId \<noteq> (case userDoc of Some u \<Rightarrow> user_id u | None \<Rightarrow> [])
            then removeTaskFromUser env taskId previousUserId s2 else Inr s2) of
        Inl e \<Rightarrow> (handleError e, s2)
      | Inr s3 \<Rightarrow>
     (case (if assignedUser taskDoc \<noteq> [] then
              (if completed taskDoc
               then removeTaskFromUser env taskId (assignedUser taskDoc) s3
               else addTaskToUser env taskId (assignedUser taskDoc) s3)
            else Inr s3) of
        Inl e \<Rightarrow> (handleError e, s3)
      | Inr s4 \<Rightarrow>
     (case findById env task_id (tasks s4) taskId of
        Inl e \<Rightarrow> (handleError e, s4)
      | Inr updatedTask \<Rightarrow>
          (sendResponse 200 ''Task updated'' (TaskDoc updatedTask), s4))))))))))))"

text \<open>
  \<open>DELETE /tasks/:id\<close>. The task is taken from its owner's list under \<open>taskId\<close>, the
  string of the request.
\<close>

definition tasks_delete :: "env \<Rightarrow> string \<Rightarrow> store \<Rightarrow> response \<times> store" where
  "tasks_delete env taskId s =
     (if \<not> isValid env taskId then (handleError (createError 400 ''Invalid task id''), s)
      else case findById env task_id (tasks s) taskId of
        Inl e \<Rightarrow> (handleError e, s)
      | Inr None \<Rightarrow> (handleError (createError 404 ''Task not found''), s)
      | Inr (Some found) \<Rightarrow>
          (let assignedUserId = assignedUser found in
           case deleteOne env task_id taskId (tasks s) of
             Inl e \<Rightarrow> (handleError e, s)
           | Inr ts \<Rightarrow>
               (let s1 = s\<lparr>tasks := ts\<rparr> in
                case (if assignedUserId \<noteq> [] then removeTaskFromUser env taskId assignedUserId s1
                      else Inr s1) of
                  Inl e \<Rightarrow> (handleError e, s1)
                | Inr s2 \<Rightarrow> (NoContent, s2))))"

section \<open>Requests and runs\<close>

text \<open>
  The six mutation requests. A create request carries the string form of the \<open>_id\<close>
  that the new document gets: it is not empty, it is the form that the cast of an id
  gives, and no document of the collection has it. A run executes requests one after
  the other for as long as each completes, that is, is answered with a success status
  (200, 201 or 204).
\<close>

datatype request =
    CreateTask string obj
  | UpdateTask string obj
  | DeleteTask string
  | CreateUser string obj
  | UpdateUser string obj
  | DeleteUser string

fun handle :: "env \<Rightarrow> request \<Rightarrow> store \<Rightarrow> response \<times> store" where
  "handle env (CreateTask newId body) s = tasks_post env newId body s"
| "handle env (UpdateTask taskId body) s = tasks_put env taskId body s"
| "handle env (DeleteTask taskId) s = tasks_delete env taskId s"
| "handle env (CreateUser newId body) s = users_post env newId body s"
| "handle env (UpdateUser userId body) s = users_put env userId body s"
| "handle env (DeleteUser userId) s = users_delete env userId s"

fun freshId :: "env \<Rightarrow> request \<Rightarrow> store \<Rightarrow> bool" where
  "freshId env (CreateTask newId body) s =
     (newId \<noteq> [] \<and> castId env newId = Some newId \<and> newId \<notin> set (map task_id (tasks s)))"
| "freshId env (CreateUser newId body) s =
     (newId \<noteq> [] \<and> castId env newId = Some newId \<and> newId \<notin> set (map user_id (users s)))"
| "freshId env r s = True"

definition succeeded :: "response \<Rightarrow> bool" where
  "succeeded r = (status r < 300)"

fun run :: "env \<Rightarrow> request list \<Rightarrow> store \<Rightarrow> store option" where
  "run env [] s = Some s"
| "run env (r # rs) s =
     (if freshId env r s then
        (case handle env r s of (resp, s') \<Rightarrow> if succeeded resp then run env rs s' else None)
      else None)"

definition emptyStore :: store where
  "emptyStore = \<lparr> users = [], tasks = [] \<rparr>"

section \<open>Referential consistency\<close>

text \<open>
  A store is referentially consistent when, for every user and every task, the task
  names the user as its owner and is not completed exactly when the user's pending list
  has the task's id, and a task without owner or completed is in no pending list.
\<close>

definition referentiallyConsistent :: "store \<Rightarrow> bool" where
  "referentiallyConsistent s =
     list_all (\<lambda>u. list_all (\<lambda>t.
         ((assignedUser t = user_id u \<and> \<not> completed t) = (task_id t \<in> set (pendingTasks u))) \<and>
         \<not> ((assignedUser t = [] \<or> completed t) \<and> task_id t \<in> set (pendingTasks u)))
       (tasks s)) (users s)"

section \<open>An example runtime\<close>

text \<open>
  One runtime for the examples. An id is valid when it is 24 hexadecimal digits, and
  its cast is the id in lower case, the string form of an ObjectId. \<open>Number\<close> reads a
  string of decimal digits (the empty string as 0) and takes every other string for
  NaN; an array or an object is first converted to a string, which throws when
  \<open>String\<close> does. \<open>JSON.parse\<close> knows the one projection document the examples
  use, and the number 5. \<open>new Date\<close> gives an instant for an integral number of milliseconds, throws
  for an object with a \<open>toString\<close> of its own and takes everything else for an
  invalid date. A string path trims the blanks around a string, lower-cases it when it
  is the email, and leaves every other value as it is. \<open>save\<close> requires the fields
  the schemas require, and refuses a second user with a stored email. The query
  builder refuses a filter that is no document, and a projection or a sort that is
  neither a document nor a string. The examples stay
  on inputs where this runtime answers as JavaScript and the storage layer do.
\<close>

definition isHexDigit :: "char \<Rightarrow> bool" where
  "isHexDigit c =
     (let n = (of_char c :: nat) in
      (48 \<le> n \<and> n \<le> 57) \<or> (65 \<le> n \<and> n \<le> 70) \<or> (97 \<le> n \<and> n \<le> 102))"

definition isObjectIdString :: "string \<Rightarrow> bool" where
  "isObjectIdString s = (length s = 24 \<and> list_all isHexDigit s)"

definition exampleCast :: "string \<Rightarrow> string option" where
  "exampleCast s = (if isObjectIdString s then Some (toLowerCase s) else None)"

fun decimalOf :: "nat \<Rightarrow> string \<Rightarrow> nat option" where
  "decimalOf acc [] = Some acc"
| "decimalOf acc (c # cs) =
     (let n = (of_char c :: nat) in
      if 48 \<le> n \<and> n \<le> 57 then decimalOf (10 * acc + (n - 48)) cs else None)"

definition numberOfString :: "string \<Rightarrow> jsnum" where
  "numberOfString s = (case decimalOf 0 s of Some n \<Rightarrow> Fin (of_nat n) | None \<Rightarrow> NaN)"

fun exampleNumToString :: "jsnum \<Rightarrow> string" where
  "exampleNumToString NaN = ''NaN''"
| "exampleNumToString PosInf = ''Infinity''"
| "exampleNumToString NegInf = ''-Infinity''"
| "exampleNumToString (Fin r) = (if r = 0 then ''0'' else if r = 1 then ''1'' else ''NaN'')"

fun exampleNumber :: "jsval \<Rightarrow> jsnum option" where
  "exampleNumber JUndefined = Some NaN"
| "exampleNumber JNull = Some (Fin 0)"
| "exampleNumber (JBool b) = Some (Fin (if b then 1 else 0))"
| "exampleNumber (JNum n) = Some n"
| "exampleNumber (JStr s) = Some (numberOfString s)"
| "exampleNumber v = map_option numberOfString (String exampleNumToString v)"

definition exampleJSON :: "jsval \<Rightarrow> jsval option" where
  \<open>exampleJSON v =
     (if v = JStr ''{"name":1}'' then Some (JObj [(''name'', JNum (Fin 1))])
      else if v = JStr ''5'' then Some (JNum (Fin 5))
      else None)\<close>

fun exampleDate :: "jsval \<Rightarrow> dateResult" where
  "exampleDate (JNum (Fin r)) = (if of_int \<lfloor>r\<rfloor> = r then ValidDate \<lfloor>r\<rfloor> else InvalidDate)"
| "exampleDate (JObj kvs) = (if map_of kvs ''toString'' \<noteq> None then DateThrows else InvalidDate)"
| "exampleDate v = InvalidDate"

definition isBlank :: "char \<Rightarrow> bool" where
  "isBlank c = (let n = (of_char c :: nat) in n = 32 \<or> (9 \<le> n \<and> n \<le> 13))"

definition trim :: "string \<Rightarrow> string" where
  "trim s = rev (dropWhile isBlank (rev (dropWhile isBlank s)))"

fun exampleSchemaString :: "bool \<Rightarrow> jsval \<Rightarrow> jsval" where
  "exampleSchemaString lower (JStr s) = JStr (if lower then toLowerCase (trim s) else trim s)"
| "exampleSchemaString lower v = v"

definition exampleValidateTask :: "task \<Rightarrow> storeError option" where
  "exampleValidateTask t =
     (if task_name t = JUndefined then Some (ValidationError ''Task name is required'')
      else if deadline t = None then Some (ValidationError ''Task deadline is required'')
      else None)"

definition exampleValidateUser :: "user list \<Rightarrow> user \<Rightarrow> storeError option" where
  "exampleValidateUser us u =
     (if user_name u = JUndefined then Some (ValidationError ''User name is required'')
      else if email u = JUndefined then Some (ValidationError ''User email is required'')
      else if \<exists>v \<in> set us. user_id v \<noteq> user_id u \<and> email v = email u then Some DuplicateKey
      else None)"

definition isDocument :: "jsval \<Rightarrow> bool" where
  "isDocument v = (case v of JObj kvs \<Rightarrow> True | _ \<Rightarrow> False)"

definition isDocumentOrString :: "jsval \<Rightarrow> bool" where
  "isDocumentOrString v = (case v of JObj kvs \<Rightarrow> True | JStr s \<Rightarrow> True | _ \<Rightarrow> False)"

fun exampleRefuses :: "storeCall \<Rightarrow> storeError option" where
  "exampleRefuses (CountDocuments c f) = (if isDocument f then None else Some OtherError)"
| "exampleRefuses (FindExec c q) =
     (if isDocument (fq_filter q) \<and>
         (case fq_select q of None \<Rightarrow> True | Some p \<Rightarrow> isDocumentOrString p) \<and>
         (case fq_sort q of None \<Rightarrow> True | Some so \<Rightarrow> isDocumentOrString so)
      then None else Some OtherError)"

definition exampleEnv :: env where
  "exampleEnv =
     \<lparr> isValid = isObjectIdString, castId = exampleCast, numToString = exampleNumToString,
       toNumber = exampleNumber, JSON_parse = exampleJSON, newDate = exampleDate,
       schemaString = exampleSchemaString,
       validateTask = exampleValidateTask, validateUser = exampleValidateUser,
       refuses = exampleRefuses \<rparr>"

section \<open>Example documents\<close>

text \<open>
  Two users and three tasks for the examples, with ids in the form of the store, the
  ids of the first and the third task spelled in upper case as well, and the bodies of
  two Task updates, of the first and of the third task, that name Bob as the owner and
  have no \<open>completed\<close> field.
\<close>

definition idAnn :: string where "idAnn = ''65a1b2c3d4e5f60718293a01''"
definition idBob :: string where "idBob = ''65a1b2c3d4e5f60718293a02''"
definition idTask1 :: string where "idTask1 = ''65a1b2c3d4e5f60718293b01''"
definition idTask2 :: string where "idTask2 = ''65a1b2c3d4e5f60718293b02''"
definition idTask3 :: string where "idTask3 = ''65a1b2c3d4e5f60718293b03''"
definition idTask1Upper :: string where "idTask1Upper = ''65A1B2C3D4E5F60718293B01''"
definition idTask3Upper :: string where "idTask3Upper = ''65A1B2C3D4E5F60718293B03''"

definition ann :: user where
  "ann = \<lparr> user_id = idAnn, user_name = JStr ''Ann'', email = JStr ''ann@example.org'',
           pendingTasks = [idTask1, idTask2] \<rparr>"

definition bob :: user where
  "bob = \<lparr> user_id = idBob, user_name = JStr ''Bob'', email = JStr ''bob@example.org'',
           pendingTasks = [] \<rparr>"

definition task1 :: task where
  "task1 = \<lparr> task_id = idTask1, task_name = JStr ''Write report'', description = JStr [],
             deadline = Some 1700000000000, completed = False, assignedUser = idAnn,
             assignedUserName = JStr ''Ann'' \<rparr>"

definition task2 :: task where
  "task2 = \<lparr> task_id = idTask2, task_name = JStr ''File taxes'', description = JStr [],
             deadline = Some 1700000000000, completed = False, assignedUser = idAnn,
             assignedUserName = JStr ''Ann'' \<rparr>"

definition task3 :: task where
  "task3 = \<lparr> task_id = idTask3, task_name = JStr ''Plan trip'', description = JStr [],
             deadline = Some 1700000000000, completed = True, assignedUser = idBob,
             assignedUserName = JStr ''Bob'' \<rparr>"

definition exampleStore :: store where
  "exampleStore = \<lparr> users = [ann, bob], tasks = [task1, task2, task3] \<rparr>"

definition reportForBob :: obj where
  "reportForBob = [(''name'', JStr ''Write report''), (''deadline'', JNum (Fin 1700000000000)),
                   (''assignedUser'', JStr idBob)]"

definition tripForBob :: obj where
  "tripForBob = [(''name'', JStr ''Plan trip''), (''deadline'', JNum (Fin 1700000000000)),
                 (''assignedUser'', JStr idBob)]"

text \<open>
  A run for the examples, from the empty store: Ann is created, a task is created for
  her, and the task is then updated as completed, addressed by its id in upper case.
\<close>

definition completingRequests :: "request list" where
  "completingRequests =
     [CreateUser idAnn [(''name'', JStr ''Ann''), (''email'', JStr ''ann@example.org'')],
      CreateTask idTask1 [(''name'', JStr ''Write report''),
                          (''deadline'', JNum (Fin 1700000000000)),
                          (''assignedUser'', JStr idAnn)],
      UpdateTask idTask1Upper [(''name'', JStr ''Write report''),
                               (''deadline'', JNum (Fin 1700000000000)),
                               (''assignedUser'', JStr idAnn), (''completed'', JBool True)]]"

text \<open>
  The same run with the task addressed by the string form of its id, and the two stores
  that these runs leave, which differ in Ann's pending list only.
\<close>

definition completingRequestsCanonical :: "request list" where
  "completingRequestsCanonical =
     [CreateUser idAnn [(''name'', JStr ''Ann''), (''email'', JStr ''ann@example.org'')],
      CreateTask idTask1 [(''name'', JStr ''Write report''),
                          (''deadline'', JNum (Fin 1700000000000)),
                          (''assignedUser'', JStr idAnn)],
      UpdateTask idTask1 [(''name'', JStr ''Write report''),
                          (''deadline'', JNum (Fin 1700000000000)),
                          (''assignedUser'', JStr idAnn), (''completed'', JBool True)]]"

definition completedStale :: store where
  "completedStale =
     \<lparr> users = [ann\<lparr>pendingTasks := [idTask1]\<rparr>], tasks = [task1\<lparr>completed := True\<rparr>] \<rparr>"

definition completedClean :: store where
  "completedClean =
     \<lparr> users = [ann\<lparr>pendingTasks := []\<rparr>], tasks = [task1\<lparr>completed := True\<rparr>] \<rparr>"

section \<open>The values an id list is built from\<close>


section \<open>Properties\<close>

subsection \<open>Boolean-like parameters\<close>

lemma toLowerCase_examples:
  "toLowerCase ''yes'' = ''yes''"
  "toLowerCase ''TRUE'' = ''true''"
  "toLowerCase ''true'' = ''true''"
  "toLowerCase ''False'' = ''false''"
  "toLowerCase ''1'' = ''1''"
  by code_simp+

text \<open>
  Claim C9. The count parameter is true exactly for the boolean \<open>true\<close> and for a
  string whose lower-case form is \<open>true\<close>; every other value, numbers and absent
  values included, gives false. The function is total, so no input raises an error.
\<close>

theorem parseCountParam_true_iff:
  "parseCountParam v = (v = JBool True \<or> (\<exists>s. v = JStr s \<and> toLowerCase s = ''true''))"
  by (cases v) auto

lemma parseCountParam_examples:
  "parseCountParam (JNum n) = False"
  "parseCountParam (JStr ''1'') = False"
  "parseCountParam (JStr ''yes'') = False"
  "parseCountParam JUndefined = False"
  "parseCountParam JNull = False"
  "parseCountParam (JStr ''TRUE'') = True"
  by (simp_all add: toLowerCase_examples)

text \<open>
  Claim C3, as stated: every input that is neither a boolean nor a spelling of
  \<open>true\<close> or \<open>false\<close> gives the default. The string \<open>yes\<close> with the default
  \<open>false\<close> gives \<open>true\<close>.
\<close>

theorem parseBoolean_default_counterexample:
  "parseBoolean (JStr ''yes'') False \<noteq> False"
  by (simp add: toLowerCase_examples)

text \<open>
  Claim C3, amended. \<open>parseBoolean\<close> reads the spellings of \<open>true\<close> and \<open>false\<close>
  in any letter case and native booleans; it gives the default for an absent
  (\<open>undefined\<close>) or \<open>null\<close> value only; every other value is read by its
  truthiness, whatever the default is.
\<close>

theorem parseBoolean_cases:
  "(toLowerCase s = ''true'' \<longrightarrow> parseBoolean (JStr s) d = True) \<and>
   (toLowerCase s = ''false'' \<longrightarrow> parseBoolean (JStr s) d = False) \<and>
   parseBoolean (JBool b) d = b \<and>
   parseBoolean JUndefined d = d \<and>
   parseBoolean JNull d = d \<and>
   (v \<noteq> JUndefined \<and> v \<noteq> JNull \<and>
    (\<forall>t. v = JStr t \<longrightarrow> toLowerCase t \<noteq> ''true'' \<and> toLowerCase t \<noteq> ''false'')
      \<longrightarrow> parseBoolean v d = Boolean v)"
  by (cases v) (auto simp: Let_def)

theorem parseBoolean_cases_witness:
  "toLowerCase ''TRUE'' = ''true'' \<and> parseBoolean (JStr ''TRUE'') False = True \<and>
   JNum (Fin 0) \<noteq> JUndefined \<and> JNum (Fin 0) \<noteq> JNull \<and>
   parseBoolean (JNum (Fin 0)) True = False"
  using parseBoolean_cases [of "''TRUE''" False True "JNum (Fin 0)"]
  by (simp add: toLowerCase_examples)

subsection \<open>Conversions that throw\<close>

text \<open>
  \<open>String\<close> throws for an object with a \<open>toString\<close> of its own, alone or as an
  element of an array, and for no string, number, boolean, \<open>null\<close> or \<open>undefined\<close>.
\<close>

lemma String_throws_examples:
  "String ns (JObj [(''toString'', JNum (Fin 1))]) = None"
  "String ns (JArr [JStr ''a'', JObj [(''toString'', JNull)]]) = None"
  "String ns (JObj [(''name'', JStr ''x'')]) = Some ''[object Object]''"
  "String ns (JArr [JStr ''a'', JNull, JStr ''b'']) = Some ''a,,b''"
  by simp_all

lemma String_primitive:
  "(\<forall>xs. v \<noteq> JArr xs) \<Longrightarrow> (\<forall>kvs. v \<noteq> JObj kvs) \<Longrightarrow> String ns v \<noteq> None"
  by (cases v) auto

subsection \<open>The query-options parser\<close>








subsection \<open>A limit of zero\<close>

text \<open>
  The Task listing answers a parsed limit of zero, outside count mode, with the empty
  array and asks the store nothing.
\<close>

lemma tasks_get_limit_zero:
  "buildQueryOptions env query (Some (Fin 100)) = Inr qo \<Longrightarrow> \<not> qo_count qo \<Longrightarrow>
   qo_limit qo = Some (Fin 0) \<Longrightarrow>
   tasks_get env query = Answer (sendResponse 200 ''OK'' EmptyArray)"
  by (simp add: tasks_get_def)

lemma tasks_get_limit_zero_example:
  "tasks_get exampleEnv [(''limit'', JStr ''0'')] = Answer (sendResponse 200 ''OK'' EmptyArray)"
  by code_simp

text \<open>
  The User listing has no such branch: outside count mode it always asks the store for a
  \<open>find\<close>, and answers with what the store returns.
\<close>

lemma users_get_find:
  "buildQueryOptions env query None = Inr qo \<Longrightarrow> \<not> qo_count qo \<Longrightarrow>
   refuses env (FindExec Users (chainQuery qo)) = None \<Longrightarrow>
   users_get env query = AnswerFromStore (FindExec Users (chainQuery qo))"
  by (simp add: users_get_def ask_def)

lemma respond_users_get_find:
  "buildQueryOptions env query None = Inr qo \<Longrightarrow> \<not> qo_count qo \<Longrightarrow>
   refuses env (FindExec Users (chainQuery qo)) = None \<Longrightarrow>
   respond layer (users_get env query) =
     (case layer (FindExec Users (chainQuery qo)) of
        Inl e \<Rightarrow> handleError e
      | Inr d \<Rightarrow> sendResponse 200 ''OK'' d)"
  by (simp add: users_get_def ask_def)

text \<open>
  A \<open>where\<close> parameter that is valid JSON but no document is refused by the query
  builder: the listing answers 500 and the store is not asked.
\<close>

lemma list_refused_example:
  "tasks_get exampleEnv [(''where'', JStr ''5'')]
     = Answer (Json 500 ''Internal server error'' EmptyObject)"
  "users_get exampleEnv [(''where'', JStr ''5'')]
     = Answer (Json 500 ''Internal server error'' EmptyObject)"
  by code_simp+

text \<open>
  Claim C2, on the User listing: the request \<open>GET /users?limit=0\<close> is not answered
  with the empty array by the handler; the handler runs \<open>find\<close> on the store with the
  limit 0 chained, and answers with the result of the store.
\<close>

theorem users_get_limit_zero_queries_store:
  "users_get exampleEnv [(''limit'', JStr ''0'')] =
     AnswerFromStore (FindExec Users
       \<lparr> fq_filter = JObj [], fq_select = None, fq_sort = None, fq_skip = None,
         fq_limit = Some (Fin 0) \<rparr>)"
  by code_simp

subsection \<open>Id normalization\<close>

lemma foldl_setAdd_split:
  "foldl setAdd acc xs = acc @ foldl setAdd [] (filter (\<lambda>y. y \<notin> set acc) xs)"
  by (induction xs rule: rev_induct) (auto simp: setAdd_def)

lemma arrayFromSet_Nil: "arrayFromSet [] = []"
  by (simp add: arrayFromSet_def)

text \<open>The first occurrence of a value stays, its later occurrences go.\<close>

lemma arrayFromSet_Cons:
  "arrayFromSet (x # xs) = x # arrayFromSet (filter (\<lambda>y. y \<noteq> x) xs)"
  using foldl_setAdd_split [of "[x]" xs] by (simp add: arrayFromSet_def setAdd_def)

lemma arrayFromSet_snoc:
  "arrayFromSet (xs @ [x]) =
     (if x \<in> set (arrayFromSet xs) then arrayFromSet xs else arrayFromSet xs @ [x])"
  by (simp add: arrayFromSet_def setAdd_def)


lemma distinct_arrayFromSet: "distinct (arrayFromSet xs)"
  by (induction xs rule: rev_induct) (auto simp: arrayFromSet_snoc arrayFromSet_Nil)












text \<open>
  Claim C8. The id normalization returns the empty list for an absent or null input, and
  treats an input that is not an array as the array of that one value; so a single valid
  id is accepted as the list of that id.
\<close>

theorem normalizeIdArray_scalar:
  "normalizeIdArray env JUndefined f = Inr [] \<and>
   normalizeIdArray env JNull f = Inr [] \<and>
   ((\<forall>xs. v \<noteq> JArr xs) \<longrightarrow> normalizeIdArray env v f = normalizeIdArray env (JArr [v]) f) \<and>
   (i \<noteq> [] \<and> isValid env i \<longrightarrow> normalizeIdArray env (JStr i) f = Inr [i])"
  by (cases v) (auto simp: normalizeIdArray_def keepValue_def arrayFromSet_def setAdd_def)

theorem normalizeIdArray_scalar_witness:
  "(\<forall>xs. JStr ''65a1b2c3d4e5f60718293a4b'' \<noteq> JArr xs) \<and>
   ''65a1b2c3d4e5f60718293a4b'' \<noteq> [] \<and> isValid exampleEnv ''65a1b2c3d4e5f60718293a4b'' \<and>
   normalizeIdArray exampleEnv (JArr [JStr ''65a1b2c3d4e5f60718293a4b'']) ''pendingTasks''
     = Inr [''65a1b2c3d4e5f60718293a4b'']"
proof -
  have h: "isValid exampleEnv ''65a1b2c3d4e5f60718293a4b''"
    by code_simp
  from h normalizeIdArray_scalar [of exampleEnv "''pendingTasks''"
      "JStr ''65a1b2c3d4e5f60718293a4b''" "''65a1b2c3d4e5f60718293a4b''"]
  show ?thesis by auto
qed

subsection \<open>Store primitives\<close>


lemma docWithId_Nil [simp]: "docWithId key [] c = None"
  by (simp add: docWithId_def)









subsection \<open>The removed pass of the User-driven resync\<close>




subsection \<open>The Task update\<close>

text \<open>
  A Task update addressed by the string form of the task's id moves the id from the
  list of the previous owner to the list of the new one.
\<close>

lemma tasks_put_reassign_canonical:
  "tasks_put exampleEnv idTask1 reportForBob exampleStore =
     (Json 200 ''Task updated''
        (TaskDoc (Some (task1\<lparr>assignedUser := idBob, assignedUserName := JStr ''Bob''\<rparr>))),
      \<lparr> users = [ann\<lparr>pendingTasks := [idTask2]\<rparr>, bob\<lparr>pendingTasks := [idTask1]\<rparr>],
        tasks = [task1\<lparr>assignedUser := idBob, assignedUserName := JStr ''Bob''\<rparr>,
                 task2, task3] \<rparr>)"
  by code_simp

text \<open>
  Claim C7, on the same update addressed by the id in upper case,
  \<open>PUT /tasks/65A1B2C3D4E5F60718293B01\<close>: the task is found, since the lookup casts
  the string, and \<open>assignTask\<close> takes the task's id from Ann's list; the handler then
  adds the string of the request to Bob's list, which so holds an entry that is not the
  task's id, and does not hold the task's id.
\<close>

theorem tasks_put_reassign_id_as_typed:
  "tasks_put exampleEnv idTask1Upper reportForBob exampleStore =
     (Json 200 ''Task updated''
        (TaskDoc (Some (task1\<lparr>assignedUser := idBob, assignedUserName := JStr ''Bob''\<rparr>))),
      \<lparr> users = [ann\<lparr>pendingTasks := [idTask2]\<rparr>, bob\<lparr>pendingTasks := [idTask1Upper]\<rparr>],
        tasks = [task1\<lparr>assignedUser := idBob, assignedUserName := JStr ''Bob''\<rparr>,
                 task2, task3] \<rparr>) \<and>
   task_id task1 \<notin> set [idTask1Upper]"
  by code_simp

text \<open>
  An update of a completed task that omits \<open>completed\<close>, addressed by the string
  form of the task's id, resets the flag and adds the id to the owner's list.
\<close>

lemma tasks_put_omitted_completed_canonical:
  "tasks_put exampleEnv idTask3 tripForBob exampleStore =
     (Json 200 ''Task updated'' (TaskDoc (Some (task3\<lparr>completed := False\<rparr>))),
      \<lparr> users = [ann, bob\<lparr>pendingTasks := [idTask3]\<rparr>],
        tasks = [task1, task2, task3\<lparr>completed := False\<rparr>] \<rparr>)"
  by code_simp

text \<open>
  Claim C10, on the same update addressed by the id in upper case,
  \<open>PUT /tasks/65A1B2C3D4E5F60718293B03\<close>: the flag of the completed task is reset
  and the task keeps its owner Bob, but what the handler adds to Bob's list is the
  string of the request, not the task's id.
\<close>

theorem tasks_put_omitted_completed_id_as_typed:
  "getProp tripForBob ''completed'' = JUndefined \<and> completed task3 \<and>
   tasks_put exampleEnv idTask3Upper tripForBob exampleStore =
     (Json 200 ''Task updated'' (TaskDoc (Some (task3\<lparr>completed := False\<rparr>))),
      \<lparr> users = [ann, bob\<lparr>pendingTasks := [idTask3Upper]\<rparr>],
        tasks = [task1, task2, task3\<lparr>completed := False\<rparr>] \<rparr>) \<and>
   task_id task3 \<notin> set [idTask3Upper]"
  by code_simp

subsection \<open>Referential consistency\<close>

text \<open>
  The example store is referentially consistent, and so is the store that the run
  leaves when the task is addressed by the string form of its id: the completed task is
  taken from Ann's list.
\<close>

lemma exampleStore_consistent: "referentiallyConsistent exampleStore"
  by code_simp

lemma run_canonical_consistent:
  "run exampleEnv completingRequestsCanonical emptyStore = Some completedClean \<and>
   referentiallyConsistent completedClean"
  by code_simp

text \<open>
  Claim C1, on the run that addresses the task by its id in upper case. Every request
  of the run completes: Ann is created (201), a task is created for her and added to her
  list under its id (201), and \<open>PUT /tasks/65A1B2C3D4E5F60718293B01\<close> with
  \<open>completed\<close> true is answered 200. The handler then pulls the string of the
  request from Ann's list, which holds the task's id in its string form: the completed
  task stays in the list, and the store is not referentially consistent.
\<close>

theorem run_leaves_completed_task_pending:
  "run exampleEnv completingRequests emptyStore = Some completedStale \<and>
   \<not> referentiallyConsistent completedStale"
  by code_simp

subsection \<open>What the schemas store\<close>

text \<open>
  The name and the email of a User are stored trimmed, the email in lower case.
\<close>

lemma users_post_schema_example:
  "users_post exampleEnv idAnn
     [(''name'', JStr '' Ann ''), (''email'', JStr '' Ann@Example.org'')] emptyStore =
     (Json 201 ''User created'' (UserDoc (Some (ann\<lparr>pendingTasks := []\<rparr>))),
      \<lparr> users = [ann\<lparr>pendingTasks := []\<rparr>], tasks = [] \<rparr>)"
  by code_simp

end
